theory Spec2Isabelle
  imports Complex_Main
begin

section \<open>The Pareto distribution of boost/math/distributions/pareto.hpp\<close>

text \<open>
  The header is a template over \<open>RealType\<close> and \<open>Policy\<close>. The embedding instantiates
  \<open>RealType\<close> with the real numbers: arithmetic is exact, every value is finite, and
  rounding, overflow and the non-finite values of a floating-point \<open>RealType\<close> are outside
  the model. The properties below therefore say which checks run and in which order, which
  branch is taken, and which expression of the source is the result; they do not use the
  field laws of the reals to rewrite such an expression, since at \<open>double\<close> the rewritten
  value need not be the computed one. A call of \<open>raise_domain_error\<close> is a value \<open>Inl e\<close> of the result type,
  whatever the policy then does with it (throw, or hand back a not-a-number): every entry
  point returns the outcome of \<open>raise_domain_error\<close> unchanged.
\<close>

subsection \<open>Values and errors\<close>

type_synonym RealType = real

datatype error = domain_error string string RealType

text \<open>
  Modelled from the spec: \<open>policies::raise_domain_error\<close> (policies/error_handling.hpp is not
  among the sources) signals a domain error that carries the name of the calling function,
  the message and the offending value, which the message interpolates at \<open>%1%\<close>.
\<close>

definition raise_domain_error :: "string \<Rightarrow> string \<Rightarrow> RealType \<Rightarrow> error" where
  "raise_domain_error func message val = domain_error func message val"

text \<open>\<open>boost::math::isfinite\<close> on the exact instance: no real number is infinite or a NaN.\<close>

definition isfinite :: "RealType \<Rightarrow> bool" where
  "isfinite x = True"

text \<open>
  \<open>std::pow\<close>. Every call of the header has a base that the checks have made strictly
  positive, where \<open>pow\<close> is the real power.
\<close>

definition pow :: "RealType \<Rightarrow> RealType \<Rightarrow> RealType" where
  "pow x y = x powr y"

text \<open>
  Modelled from the spec: \<open>powm1\<close> (special_functions/powm1.hpp is not among the sources) is
  a numerically stable evaluation of \<open>a^b - 1\<close>.
\<close>

definition powm1 :: "RealType \<Rightarrow> RealType \<Rightarrow> RealType" where
  "powm1 a b = a powr b - 1"

subsection \<open>Parameter checking (namespace detail)\<close>

text \<open>
  A check of the source returns \<open>true\<close>, or stores the outcome of \<open>raise_domain_error\<close> in
  \<open>*result\<close> and returns \<open>false\<close>. Here \<open>None\<close> is \<open>true\<close> and \<open>Some e\<close> is \<open>false\<close> with
  \<open>e\<close> stored.
\<close>

definition check_pareto_location :: "string \<Rightarrow> RealType \<Rightarrow> error option" where
  "check_pareto_location func location =
     (if isfinite location then
        (if location > 0 then None
         else Some (raise_domain_error func
                ''Location parameter is %1%, but must be > 0!'' location))
      else Some (raise_domain_error func
                ''Location parameter is %1%, but must be finite!'' location))"

definition check_pareto_shape :: "string \<Rightarrow> RealType \<Rightarrow> error option" where
  "check_pareto_shape func shape =
     (if isfinite shape then
        (if shape > 0 then None
         else Some (raise_domain_error func
                ''Shape parameter is %1%, but must be > 0!'' shape))
      else Some (raise_domain_error func
                ''Shape parameter is %1%, but must be finite!'' shape))"

definition check_pareto_x :: "string \<Rightarrow> RealType \<Rightarrow> error option" where
  "check_pareto_x func x =
     (if isfinite x then
        (if x > 0 then None
         else Some (raise_domain_error func
                ''x parameter is %1%, but must be > 0 !'' x))
      else Some (raise_domain_error func
                ''x parameter is %1%, but must be finite!'' x))"

text \<open>
  The short-circuit \<open>&&\<close> of two checks: the second one runs only when the first has
  returned \<open>true\<close>, so \<open>*result\<close> holds the error of the first check that fails.
\<close>

definition check_and :: "error option \<Rightarrow> error option \<Rightarrow> error option" where
  "check_and c1 c2 = (case c1 of Some e \<Rightarrow> Some e | None \<Rightarrow> c2)"

definition check_pareto :: "string \<Rightarrow> RealType \<Rightarrow> RealType \<Rightarrow> error option" where
  "check_pareto func location shape =
     check_and (check_pareto_location func location) (check_pareto_shape func shape)"

text \<open>
  Modelled from the spec: \<open>detail::check_probability\<close> (detail/common_error_handling.hpp is
  not among the sources): the probability must be finite and within [0, 1], and a violation
  is a domain error describing the violated bound.
\<close>

definition check_probability :: "string \<Rightarrow> RealType \<Rightarrow> error option" where
  "check_probability func prob =
     (if prob < 0 \<or> prob > 1 \<or> \<not> isfinite prob then
        Some (raise_domain_error func
          ''Probability argument is %1%, but must be >= 0 and <= 1 !'' prob)
      else None)"

subsection \<open>The distribution\<close>

record pareto_distribution =
  m_location :: RealType
  m_shape :: RealType

text \<open>
  The accessors \<open>location()\<close> and \<open>shape()\<close>. A distribution is written \<open>distn\<close> where the
  source writes \<open>dist\<close>, which in HOL is the distance of a metric space.
\<close>

definition location :: "pareto_distribution \<Rightarrow> RealType" where
  "location distn = m_location distn"

definition shape :: "pareto_distribution \<Rightarrow> RealType" where
  "shape distn = m_shape distn"

text \<open>
  \<open>tools::max_value<RealType>()\<close> is not among the sources and depends on \<open>RealType\<close>; the
  functions that return it take it as their first argument \<open>max_value\<close>. The function
  \<open>range\<close> of the source is \<open>range_of\<close> here.
\<close>

definition range_of :: "RealType \<Rightarrow> pareto_distribution \<Rightarrow> RealType \<times> RealType" where
  "range_of max_value distn = (0, max_value)"

definition support :: "RealType \<Rightarrow> pareto_distribution \<Rightarrow> RealType \<times> RealType" where
  "support max_value distn = (location distn, max_value)"

subsection \<open>Density, distribution function and quantile\<close>

definition pdf_function :: string where
  "pdf_function = ''boost::math::pdf(const pareto_distribution<%1%>&, %1%)''"

definition cdf_function :: string where
  "cdf_function = ''boost::math::cdf(const pareto_distribution<%1%>&, %1%)''"

definition quantile_function :: string where
  "quantile_function = ''boost::math::quantile(const pareto_distribution<%1%>&, %1%)''"

definition pdf :: "pareto_distribution \<Rightarrow> RealType \<Rightarrow> error + RealType" where
  "pdf distn x =
     (let location = location distn; shape = shape distn in
      case check_and (check_pareto_x pdf_function x)
                     (check_pareto pdf_function location shape) of
        Some result \<Rightarrow> Inl result
      | None \<Rightarrow>
          if x < location then Inr 0
          else Inr (shape * pow location shape / pow x (shape + 1)))"

definition cdf :: "pareto_distribution \<Rightarrow> RealType \<Rightarrow> error + RealType" where
  "cdf distn x =
     (let location = location distn; shape = shape distn in
      case check_and (check_pareto_x cdf_function x)
                     (check_pareto cdf_function location shape) of
        Some result \<Rightarrow> Inl result
      | None \<Rightarrow>
          if x \<le> location then Inr 0
          else Inr (- powm1 (location / x) shape))"

definition quantile :: "RealType \<Rightarrow> pareto_distribution \<Rightarrow> RealType \<Rightarrow> error + RealType" where
  "quantile max_value distn p =
     (let location = location distn; shape = shape distn in
      case check_and (check_probability quantile_function p)
                     (check_pareto quantile_function location shape) of
        Some result \<Rightarrow> Inl result
      | None \<Rightarrow>
          if p = 0 then Inr location
          else if p = 1 then Inr max_value
          else Inr (location / (pow (1 - p) (1 / shape))))"

text \<open>
  The two overloads for \<open>complemented2_type\<close>, which pairs the distribution \<open>c.dist\<close> with
  the argument \<open>c.param\<close>. The complemented cdf reports its errors under the function name
  of \<open>cdf\<close>, the complemented quantile under that of \<open>quantile\<close>.
\<close>

definition cdf_complement :: "pareto_distribution \<Rightarrow> RealType \<Rightarrow> error + RealType" where
  "cdf_complement distn param =
     (let x = param; location = location distn; shape = shape distn in
      case check_and (check_pareto_x cdf_function x)
                     (check_pareto cdf_function location shape) of
        Some result \<Rightarrow> Inl result
      | None \<Rightarrow>
          if x \<le> location then Inr 1
          else Inr (pow (location / x) shape))"

definition quantile_complement ::
  "RealType \<Rightarrow> pareto_distribution \<Rightarrow> RealType \<Rightarrow> error + RealType" where
  "quantile_complement max_value distn param =
     (let q = param; location = location distn; shape = shape distn in
      case check_and (check_probability quantile_function q)
                     (check_pareto quantile_function location shape) of
        Some result \<Rightarrow> Inl result
      | None \<Rightarrow>
          if q = 1 then Inr location
          else if q = 0 then Inr max_value
          else Inr (location / (pow q (1 / shape))))"

subsection \<open>Moments\<close>

definition mean_function :: string where
  "mean_function = ''boost::math::mean(const pareto_distribution<%1%>&, %1%)''"

definition median_function :: string where
  "median_function = ''boost::math::median(const pareto_distribution<%1%>&, %1%)''"

definition variance_function :: string where
  "variance_function = ''boost::math::variance(const pareto_distribution<%1%>&, %1%)''"

definition mean :: "RealType \<Rightarrow> pareto_distribution \<Rightarrow> error + RealType" where
  "mean max_value distn =
     (case check_pareto mean_function (location distn) (shape distn) of
        Some result \<Rightarrow> Inl result
      | None \<Rightarrow>
          if shape distn > 1 then Inr (shape distn * location distn / (shape distn - 1))
          else Inr max_value)"

text \<open>\<open>mode\<close> has no check and no \<open>result\<close>: it returns the location as it is.\<close>

definition mode :: "pareto_distribution \<Rightarrow> RealType" where
  "mode distn = location distn"

definition median :: "pareto_distribution \<Rightarrow> error + RealType" where
  "median distn =
     (case check_pareto median_function (location distn) (shape distn) of
        Some result \<Rightarrow> Inl result
      | None \<Rightarrow> Inr (location distn * pow 2 (1 / shape distn)))"

definition variance :: "pareto_distribution \<Rightarrow> error + RealType" where
  "variance distn =
     (case check_pareto variance_function (location distn) (shape distn) of
        Some result \<Rightarrow> Inl result
      | None \<Rightarrow>
          if shape distn > 2 then
            Inr ((location distn * location distn * shape distn) /
                 ((shape distn - 1) * (shape distn - 1) * (shape distn - 2)))
          else
            Inl (raise_domain_error variance_function
                  ''variance is undefined for shape <= 2, but got %1%.'' (shape distn)))"

text \<open>
  \<open>skewness\<close>, \<open>kurtosis\<close> and \<open>kurtosis_excess\<close> report their errors under the function
  name of \<open>pdf\<close>, as the source has it.
\<close>

definition skewness :: "pareto_distribution \<Rightarrow> error + RealType" where
  "skewness distn =
     (case check_pareto pdf_function (location distn) (shape distn) of
        Some result \<Rightarrow> Inl result
      | None \<Rightarrow>
          if shape distn > 3 then
            Inr (sqrt ((shape distn - 2) / shape distn) * 2 * (shape distn + 1) /
                 (shape distn - 3))
          else
            Inl (raise_domain_error pdf_function
                  ''skewness is undefined for shape <= 3, but got %1%.'' (shape distn)))"

definition kurtosis :: "pareto_distribution \<Rightarrow> error + RealType" where
  "kurtosis distn =
     (case check_pareto pdf_function (location distn) (shape distn) of
        Some result \<Rightarrow> Inl result
      | None \<Rightarrow>
          if shape distn > 4 then
            Inr (3 * ((shape distn - 2) * (3 * shape distn * shape distn + shape distn + 2)) /
                 (shape distn * (shape distn - 3) * (shape distn - 4)))
          else
            Inl (raise_domain_error pdf_function
                  ''kurtosis_excess is undefined for shape <= 4, but got %1%.'' (shape distn)))"

definition kurtosis_excess :: "pareto_distribution \<Rightarrow> error + RealType" where
  "kurtosis_excess distn =
     (case check_pareto pdf_function (location distn) (shape distn) of
        Some result \<Rightarrow> Inl result
      | None \<Rightarrow>
          if shape distn > 4 then
            Inr (6 * ((shape distn * shape distn * shape distn) + (shape distn * shape distn)
                      - 6 * shape distn - 2) /
                 (shape distn * (shape distn - 3) * (shape distn - 4)))
          else
            Inl (raise_domain_error pdf_function
                  ''kurtosis_excess is undefined for shape <= 4, but got %1%.'' (shape distn)))"

section \<open>Properties\<close>

subsection \<open>When the checks pass\<close>

lemma check_and_None: "check_and c1 c2 = None \<longleftrightarrow> c1 = None \<and> c2 = None"
  by (simp add: check_and_def split: option.splits)

lemma check_pareto_None: "check_pareto func l s = None \<longleftrightarrow> 0 < l \<and> 0 < s"
  by (simp add: check_pareto_def check_and_def check_pareto_location_def
      check_pareto_shape_def isfinite_def)

lemma check_pareto_x_None: "check_pareto_x func x = None \<longleftrightarrow> 0 < x"
  by (simp add: check_pareto_x_def isfinite_def)

lemma check_probability_None:
  "check_probability func p = None \<longleftrightarrow> 0 \<le> p \<and> p \<le> 1"
  by (auto simp add: check_probability_def isfinite_def)

lemma x_checks_pass:
  assumes "0 < location distn" and "0 < shape distn" and "0 < x"
  shows "check_and (check_pareto_x func x)
           (check_pareto func (location distn) (shape distn)) = None"
  using assms by (simp add: check_and_None check_pareto_None check_pareto_x_None)

lemma p_checks_pass:
  assumes "0 < location distn" and "0 < shape distn" and "0 \<le> p" and "p \<le> 1"
  shows "check_and (check_probability func p)
           (check_pareto func (location distn) (shape distn)) = None"
  using assms by (simp add: check_and_None check_pareto_None check_probability_None)

subsection \<open>The distribution function and its complement\<close>

text \<open>
  C1. For a distribution with valid location and shape (both strictly positive) and a valid
  \<open>x > 0\<close>, \<open>cdf\<close> returns 0 when \<open>x \<le> location\<close>, the boundary included, and
  \<open>1 - (location/x)^shape\<close> when \<open>x > location\<close>.
\<close>

theorem cdf_value:
  assumes "0 < location distn" and "0 < shape distn" and "0 < x"
  shows "cdf distn x =
    Inr (if x \<le> location distn then 0 else 1 - (location distn / x) powr shape distn)"
  using x_checks_pass [OF assms, of cdf_function] by (simp add: cdf_def Let_def powm1_def)

theorem cdf_value_witness:
  "cdf \<lparr>m_location = 2, m_shape = 3\<rparr> 4 = Inr (7 / 8) \<and>
   cdf \<lparr>m_location = 2, m_shape = 3\<rparr> 2 = Inr 0 \<and>
   cdf \<lparr>m_location = 2, m_shape = 3\<rparr> 1 = Inr 0"
  using cdf_value [of "\<lparr>m_location = 2, m_shape = 3\<rparr>" 4]
    cdf_value [of "\<lparr>m_location = 2, m_shape = 3\<rparr>" 2]
    cdf_value [of "\<lparr>m_location = 2, m_shape = 3\<rparr>" 1]
  by (simp add: location_def shape_def power3_eq_cube)

text \<open>
  C2. For a distribution with valid location and shape and a valid \<open>x > 0\<close>, the complemented
  cdf returns 1 when \<open>x \<le> location\<close> and \<open>(location/x)^shape\<close> when \<open>x > location\<close>.
\<close>

theorem cdf_complement_value:
  assumes "0 < location distn" and "0 < shape distn" and "0 < x"
  shows "cdf_complement distn x =
    Inr (if x \<le> location distn then 1 else (location distn / x) powr shape distn)"
  using x_checks_pass [OF assms, of cdf_function]
  by (simp add: cdf_complement_def Let_def pow_def)

theorem cdf_complement_value_witness:
  "cdf_complement \<lparr>m_location = 2, m_shape = 3\<rparr> 4 = Inr (1 / 8) \<and>
   cdf_complement \<lparr>m_location = 2, m_shape = 3\<rparr> 2 = Inr 1"
  using cdf_complement_value [of "\<lparr>m_location = 2, m_shape = 3\<rparr>" 4]
    cdf_complement_value [of "\<lparr>m_location = 2, m_shape = 3\<rparr>" 2]
  by (simp add: location_def shape_def power3_eq_cube)

subsection \<open>The density\<close>

text \<open>
  C3. For a distribution with valid location and shape and a valid \<open>x > 0\<close>, \<open>pdf\<close> returns
  exactly 0, and no error, when \<open>x < location\<close> (strictly), whatever the shape, and
  \<open>shape * location^shape / x^(shape+1)\<close> otherwise.
\<close>

theorem pdf_value:
  assumes "0 < location distn" and "0 < shape distn" and "0 < x"
  shows "pdf distn x =
    Inr (if x < location distn then 0
         else shape distn * location distn powr shape distn / x powr (shape distn + 1))"
  using x_checks_pass [OF assms, of pdf_function] by (simp add: pdf_def Let_def pow_def)

theorem pdf_value_witness:
  "pdf \<lparr>m_location = 2, m_shape = 3\<rparr> 4 = Inr (3 / 32) \<and>
   pdf \<lparr>m_location = 2, m_shape = 3\<rparr> 1 = Inr 0"
  using pdf_value [of "\<lparr>m_location = 2, m_shape = 3\<rparr>" 4]
    pdf_value [of "\<lparr>m_location = 2, m_shape = 3\<rparr>" 1]
  by (simp add: location_def shape_def power3_eq_cube power4_eq_xxxx)

subsection \<open>The quantile and its complement\<close>

text \<open>
  C4. For a distribution with valid location and shape, \<open>quantile\<close> returns exactly the
  location at \<open>p = 0\<close>, the representable maximum at \<open>p = 1\<close>, and
  \<open>location / (1-p)^(1/shape)\<close> for \<open>p\<close> strictly between 0 and 1; the complemented quantile
  returns exactly the location at \<open>q = 1\<close>, the representable maximum at \<open>q = 0\<close>, and
  \<open>location / q^(1/shape)\<close> for \<open>q\<close> strictly between 0 and 1.
\<close>

theorem quantile_value:
  assumes "0 < location distn" and "0 < shape distn"
  shows "quantile max_value distn 0 = Inr (location distn) \<and>
    quantile max_value distn 1 = Inr max_value \<and>
    (0 < p \<and> p < 1 \<longrightarrow>
       quantile max_value distn p = Inr (location distn / (1 - p) powr (1 / shape distn))) \<and>
    quantile_complement max_value distn 1 = Inr (location distn) \<and>
    quantile_complement max_value distn 0 = Inr max_value \<and>
    (0 < q \<and> q < 1 \<longrightarrow>
       quantile_complement max_value distn q =
         Inr (location distn / q powr (1 / shape distn)))"
proof -
  have ok: "check_and (check_probability quantile_function r)
      (check_pareto quantile_function (location distn) (shape distn)) = None"
    if "0 \<le> r" and "r \<le> 1" for r
    using p_checks_pass [OF assms that] .
  have "quantile max_value distn 0 = Inr (location distn)"
    using ok [of 0] by (simp add: quantile_def Let_def)
  moreover have "quantile max_value distn 1 = Inr max_value"
    using ok [of 1] by (simp add: quantile_def Let_def)
  moreover have
    "quantile max_value distn p = Inr (location distn / (1 - p) powr (1 / shape distn))"
    if "0 < p" and "p < 1"
    using ok [of p] that by (simp add: quantile_def Let_def pow_def)
  moreover have "quantile_complement max_value distn 1 = Inr (location distn)"
    using ok [of 1] by (simp add: quantile_complement_def Let_def)
  moreover have "quantile_complement max_value distn 0 = Inr max_value"
    using ok [of 0] by (simp add: quantile_complement_def Let_def)
  moreover have
    "quantile_complement max_value distn q = Inr (location distn / q powr (1 / shape distn))"
    if "0 < q" and "q < 1"
    using ok [of q] that by (simp add: quantile_complement_def Let_def pow_def)
  ultimately show ?thesis by blast
qed

theorem quantile_value_witness:
  "quantile 1000 \<lparr>m_location = 2, m_shape = 1 / 2\<rparr> 0 = Inr 2 \<and>
   quantile 1000 \<lparr>m_location = 2, m_shape = 1 / 2\<rparr> 1 = Inr 1000 \<and>
   quantile 1000 \<lparr>m_location = 2, m_shape = 1 / 2\<rparr> (1 / 2) = Inr 8 \<and>
   quantile_complement 1000 \<lparr>m_location = 2, m_shape = 1 / 2\<rparr> 1 = Inr 2 \<and>
   quantile_complement 1000 \<lparr>m_location = 2, m_shape = 1 / 2\<rparr> 0 = Inr 1000 \<and>
   quantile_complement 1000 \<lparr>m_location = 2, m_shape = 1 / 2\<rparr> (1 / 4) = Inr 32"
  using quantile_value [of "\<lparr>m_location = 2, m_shape = 1 / 2\<rparr>" 1000 "1 / 2" "1 / 4"]
  by (simp add: location_def shape_def power2_eq_square)

subsection \<open>Moments\<close>

text \<open>
  C6. For a distribution with valid location and shape, \<open>mean\<close> returns
  \<open>shape*location/(shape-1)\<close> when \<open>shape > 1\<close> and otherwise the representable maximum,
  without an error; \<open>variance\<close> returns \<open>location^2*shape/((shape-1)^2*(shape-2))\<close> when
  \<open>shape > 2\<close> and otherwise signals a domain error.
\<close>

theorem mean_variance_value:
  assumes "0 < location distn" and "0 < shape distn"
  shows "mean max_value distn =
      (if shape distn > 1 then Inr (shape distn * location distn / (shape distn - 1))
       else Inr max_value) \<and>
    variance distn =
      (if shape distn > 2 then
         Inr ((location distn)\<^sup>2 * shape distn / ((shape distn - 1)\<^sup>2 * (shape distn - 2)))
       else Inl (domain_error variance_function
                  ''variance is undefined for shape <= 2, but got %1%.'' (shape distn)))"
proof -
  have ok: "check_pareto func (location distn) (shape distn) = None" for func
    using assms by (simp add: check_pareto_None)
  have "mean max_value distn =
      (if shape distn > 1 then Inr (shape distn * location distn / (shape distn - 1))
       else Inr max_value)"
    by (simp add: mean_def ok)
  moreover have "variance distn =
      (if shape distn > 2 then
         Inr ((location distn)\<^sup>2 * shape distn / ((shape distn - 1)\<^sup>2 * (shape distn - 2)))
       else Inl (domain_error variance_function
                  ''variance is undefined for shape <= 2, but got %1%.'' (shape distn)))"
    by (simp add: variance_def ok raise_domain_error_def power2_eq_square)
  ultimately show ?thesis by simp
qed

theorem mean_variance_value_witness:
  "mean 1000 \<lparr>m_location = 2, m_shape = 3\<rparr> = Inr 3 \<and>
   mean 1000 \<lparr>m_location = 2, m_shape = 1 / 2\<rparr> = Inr 1000 \<and>
   mean 1000 \<lparr>m_location = 2, m_shape = 1\<rparr> = Inr 1000 \<and>
   variance \<lparr>m_location = 2, m_shape = 3\<rparr> = Inr 3 \<and>
   variance \<lparr>m_location = 2, m_shape = 2\<rparr> =
     Inl (domain_error variance_function
           ''variance is undefined for shape <= 2, but got %1%.'' 2)"
  using mean_variance_value [of "\<lparr>m_location = 2, m_shape = 3\<rparr>" 1000]
    mean_variance_value [of "\<lparr>m_location = 2, m_shape = 1 / 2\<rparr>" 1000]
    mean_variance_value [of "\<lparr>m_location = 2, m_shape = 1\<rparr>" 1000]
    mean_variance_value [of "\<lparr>m_location = 2, m_shape = 2\<rparr>" 1000]
  by (simp add: location_def shape_def)

text \<open>
  The other six moment functions check location and shape before anything else: for a
  distribution that \<open>check_pareto\<close> rejects, each returns the error of the check.
\<close>

lemma checked_moments_reject:
  assumes "\<not> (0 < location distn \<and> 0 < shape distn)"
  shows "\<exists>e1 e2 e3 e4.
    check_pareto mean_function (location distn) (shape distn) = Some e1 \<and>
    mean max_value distn = Inl e1 \<and>
    check_pareto median_function (location distn) (shape distn) = Some e2 \<and>
    median distn = Inl e2 \<and>
    check_pareto variance_function (location distn) (shape distn) = Some e3 \<and>
    variance distn = Inl e3 \<and>
    check_pareto pdf_function (location distn) (shape distn) = Some e4 \<and>
    skewness distn = Inl e4 \<and> kurtosis distn = Inl e4 \<and> kurtosis_excess distn = Inl e4"
proof -
  have "\<exists>e. check_pareto func (location distn) (shape distn) = Some e" for func
    using assms check_pareto_None [of func "location distn" "shape distn"] by auto
  then obtain e1 e2 e3 e4 where
    "check_pareto mean_function (location distn) (shape distn) = Some e1"
    "check_pareto median_function (location distn) (shape distn) = Some e2"
    "check_pareto variance_function (location distn) (shape distn) = Some e3"
    "check_pareto pdf_function (location distn) (shape distn) = Some e4"
    by metis
  then show ?thesis
    by (simp add: mean_def median_def variance_def skewness_def kurtosis_def
        kurtosis_excess_def)
qed

text \<open>
  C7. Every moment function is claimed to check location and shape first and to signal a
  domain error for a distribution whose location or shape is invalid. \<open>mode\<close> does not: for
  the distribution with location \<open>-1\<close> and shape 1, which \<open>check_pareto\<close> rejects and for
  which \<open>median\<close> signals the location error, \<open>mode\<close> returns \<open>-1\<close>.
\<close>

theorem mode_without_check:
  "check_pareto median_function (location \<lparr>m_location = - 1, m_shape = 1\<rparr>)
       (shape \<lparr>m_location = - 1, m_shape = 1\<rparr>) =
     Some (domain_error median_function
            ''Location parameter is %1%, but must be > 0!'' (- 1)) \<and>
   median \<lparr>m_location = - 1, m_shape = 1\<rparr> =
     Inl (domain_error median_function
            ''Location parameter is %1%, but must be > 0!'' (- 1)) \<and>
   mode \<lparr>m_location = - 1, m_shape = 1\<rparr> = - 1"
  by (simp add: mode_def median_def check_pareto_def check_and_def check_pareto_location_def
      check_pareto_shape_def isfinite_def raise_domain_error_def location_def shape_def)

text \<open>The value of \<open>kurtosis\<close> where it is defined, for shape above 4.\<close>

lemma kurtosis_above_four:
  assumes "0 < location distn" and "4 < shape distn"
  shows "kurtosis distn =
    Inr (3 * (shape distn - 2) * (3 * (shape distn)\<^sup>2 + shape distn + 2) /
         (shape distn * (shape distn - 3) * (shape distn - 4)))"
proof -
  have "check_pareto pdf_function (location distn) (shape distn) = None"
    using assms by (simp add: check_pareto_None)
  then show ?thesis
    using assms(2) by (simp add: kurtosis_def power2_eq_square mult.assoc)
qed

text \<open>
  C9. For \<open>shape \<le> 4\<close> the domain error of \<open>kurtosis\<close> is claimed to say
  "kurtosis is undefined for shape <= 4". At location 1 and shape 4 the message of the code
  names \<open>kurtosis_excess\<close> instead.
\<close>

theorem kurtosis_message:
  "kurtosis \<lparr>m_location = 1, m_shape = 4\<rparr> =
     Inl (domain_error pdf_function
            ''kurtosis_excess is undefined for shape <= 4, but got %1%.'' 4) \<and>
   kurtosis \<lparr>m_location = 1, m_shape = 4\<rparr> \<noteq>
     Inl (domain_error pdf_function
            ''kurtosis is undefined for shape <= 4, but got %1%.'' 4)"
  by (simp add: kurtosis_def check_pareto_def check_and_def check_pareto_location_def
      check_pareto_shape_def isfinite_def raise_domain_error_def location_def shape_def)

subsection \<open>The order of the checks\<close>

lemma check_and_Some1: "c1 = Some e \<Longrightarrow> check_and c1 c2 = Some e"
  by (simp add: check_and_def)

lemma check_and_Some2: "c1 = None \<Longrightarrow> c2 = Some e \<Longrightarrow> check_and c1 c2 = Some e"
  by (simp add: check_and_def)

lemma check_pareto_x_nonpos:
  "x \<le> 0 \<Longrightarrow> check_pareto_x func x =
     Some (domain_error func ''x parameter is %1%, but must be > 0 !'' x)"
  by (simp add: check_pareto_x_def isfinite_def raise_domain_error_def)

lemma check_probability_outside:
  "p < 0 \<or> 1 < p \<Longrightarrow> check_probability func p =
     Some (domain_error func ''Probability argument is %1%, but must be >= 0 and <= 1 !'' p)"
  by (simp add: check_probability_def isfinite_def raise_domain_error_def)

lemma check_pareto_location_nonpos:
  "l \<le> 0 \<Longrightarrow> check_pareto func l s =
     Some (domain_error func ''Location parameter is %1%, but must be > 0!'' l)"
  by (simp add: check_pareto_def check_and_def check_pareto_location_def isfinite_def
      raise_domain_error_def)

text \<open>
  C8, as stated: in \<open>pdf\<close>, \<open>cdf\<close>, the complemented cdf and both quantiles, location and
  shape are checked first and the argument second, so that with both invalid the error
  reported is the location or shape error. It fails for \<open>pdf\<close> at location \<open>-1\<close>, shape 1
  and \<open>x = -2\<close>: both checks fail, and the error returned is the one of \<open>x\<close>.
\<close>

theorem location_error_first_counterexample:
  "check_pareto pdf_function (location \<lparr>m_location = - 1, m_shape = 1\<rparr>)
       (shape \<lparr>m_location = - 1, m_shape = 1\<rparr>) =
     Some (domain_error pdf_function ''Location parameter is %1%, but must be > 0!'' (- 1)) \<and>
   check_pareto_x pdf_function (- 2) =
     Some (domain_error pdf_function ''x parameter is %1%, but must be > 0 !'' (- 2)) \<and>
   pdf \<lparr>m_location = - 1, m_shape = 1\<rparr> (- 2) =
     Inl (domain_error pdf_function ''x parameter is %1%, but must be > 0 !'' (- 2)) \<and>
   pdf \<lparr>m_location = - 1, m_shape = 1\<rparr> (- 2) \<noteq>
     Inl (domain_error pdf_function ''Location parameter is %1%, but must be > 0!'' (- 1))"
  by (simp add: pdf_def Let_def check_pareto_def check_and_def check_pareto_location_def
      check_pareto_shape_def check_pareto_x_def isfinite_def raise_domain_error_def
      location_def shape_def)

text \<open>
  C8, amended: in \<open>pdf\<close>, \<open>cdf\<close>, the complemented cdf and both quantiles, the argument
  (\<open>x\<close>, or the probability) is checked first and location and shape second. When the
  argument is invalid its error is the one reported, whatever the distribution; the error of
  location or shape is reported when the argument is valid.
\<close>

theorem argument_checked_first:
  "(check_pareto_x pdf_function x = Some e \<longrightarrow> pdf distn x = Inl e) \<and>
   (check_pareto_x cdf_function x = Some e \<longrightarrow> cdf distn x = Inl e) \<and>
   (check_pareto_x cdf_function x = Some e \<longrightarrow> cdf_complement distn x = Inl e) \<and>
   (check_probability quantile_function p = Some e \<longrightarrow> quantile max_value distn p = Inl e) \<and>
   (check_probability quantile_function p = Some e \<longrightarrow>
      quantile_complement max_value distn p = Inl e) \<and>
   (check_pareto_x pdf_function x = None \<and>
    check_pareto pdf_function (location distn) (shape distn) = Some e \<longrightarrow>
      pdf distn x = Inl e) \<and>
   (check_pareto_x cdf_function x = None \<and>
    check_pareto cdf_function (location distn) (shape distn) = Some e \<longrightarrow>
      cdf distn x = Inl e \<and> cdf_complement distn x = Inl e) \<and>
   (check_probability quantile_function p = None \<and>
    check_pareto quantile_function (location distn) (shape distn) = Some e \<longrightarrow>
      quantile max_value distn p = Inl e \<and> quantile_complement max_value distn p = Inl e)"
proof -
  have "pdf distn x = Inl e" if "check_pareto_x pdf_function x = Some e"
    by (simp add: pdf_def Let_def check_and_Some1 [OF that])
  moreover have "cdf distn x = Inl e" if "check_pareto_x cdf_function x = Some e"
    by (simp add: cdf_def Let_def check_and_Some1 [OF that])
  moreover have "cdf_complement distn x = Inl e" if "check_pareto_x cdf_function x = Some e"
    by (simp add: cdf_complement_def Let_def check_and_Some1 [OF that])
  moreover have "quantile max_value distn p = Inl e"
    if "check_probability quantile_function p = Some e"
    by (simp add: quantile_def Let_def check_and_Some1 [OF that])
  moreover have "quantile_complement max_value distn p = Inl e"
    if "check_probability quantile_function p = Some e"
    by (simp add: quantile_complement_def Let_def check_and_Some1 [OF that])
  moreover have "pdf distn x = Inl e"
    if "check_pareto_x pdf_function x = None"
      and "check_pareto pdf_function (location distn) (shape distn) = Some e"
    by (simp add: pdf_def Let_def check_and_Some2 [OF that])
  moreover have "cdf distn x = Inl e \<and> cdf_complement distn x = Inl e"
    if "check_pareto_x cdf_function x = None"
      and "check_pareto cdf_function (location distn) (shape distn) = Some e"
    by (simp add: cdf_def cdf_complement_def Let_def check_and_Some2 [OF that])
  moreover have
    "quantile max_value distn p = Inl e \<and> quantile_complement max_value distn p = Inl e"
    if "check_probability quantile_function p = None"
      and "check_pareto quantile_function (location distn) (shape distn) = Some e"
    by (simp add: quantile_def quantile_complement_def Let_def check_and_Some2 [OF that])
  ultimately show ?thesis by blast
qed

theorem argument_checked_first_witness:
  "pdf \<lparr>m_location = - 1, m_shape = 1\<rparr> (- 2) =
     Inl (domain_error pdf_function ''x parameter is %1%, but must be > 0 !'' (- 2)) \<and>
   cdf \<lparr>m_location = - 1, m_shape = 1\<rparr> (- 2) =
     Inl (domain_error cdf_function ''x parameter is %1%, but must be > 0 !'' (- 2)) \<and>
   cdf_complement \<lparr>m_location = - 1, m_shape = 1\<rparr> (- 2) =
     Inl (domain_error cdf_function ''x parameter is %1%, but must be > 0 !'' (- 2)) \<and>
   quantile 1000 \<lparr>m_location = - 1, m_shape = 1\<rparr> 2 =
     Inl (domain_error quantile_function
           ''Probability argument is %1%, but must be >= 0 and <= 1 !'' 2) \<and>
   quantile_complement 1000 \<lparr>m_location = - 1, m_shape = 1\<rparr> 2 =
     Inl (domain_error quantile_function
           ''Probability argument is %1%, but must be >= 0 and <= 1 !'' 2) \<and>
   pdf \<lparr>m_location = - 1, m_shape = 1\<rparr> 2 =
     Inl (domain_error pdf_function ''Location parameter is %1%, but must be > 0!'' (- 1)) \<and>
   cdf \<lparr>m_location = - 1, m_shape = 1\<rparr> 2 =
     Inl (domain_error cdf_function ''Location parameter is %1%, but must be > 0!'' (- 1)) \<and>
   quantile 1000 \<lparr>m_location = - 1, m_shape = 1\<rparr> (1 / 2) =
     Inl (domain_error quantile_function
           ''Location parameter is %1%, but must be > 0!'' (- 1))"
  using
    argument_checked_first [of "- 2" "domain_error pdf_function
      ''x parameter is %1%, but must be > 0 !'' (- 2)" "\<lparr>m_location = - 1, m_shape = 1\<rparr>"]
    argument_checked_first [of "- 2" "domain_error cdf_function
      ''x parameter is %1%, but must be > 0 !'' (- 2)" "\<lparr>m_location = - 1, m_shape = 1\<rparr>"]
    argument_checked_first [of _ "domain_error quantile_function
      ''Probability argument is %1%, but must be >= 0 and <= 1 !'' 2"
      "\<lparr>m_location = - 1, m_shape = 1\<rparr>" 2 1000]
    argument_checked_first [of 2 "domain_error pdf_function
      ''Location parameter is %1%, but must be > 0!'' (- 1)"
      "\<lparr>m_location = - 1, m_shape = 1\<rparr>"]
    argument_checked_first [of 2 "domain_error cdf_function
      ''Location parameter is %1%, but must be > 0!'' (- 1)"
      "\<lparr>m_location = - 1, m_shape = 1\<rparr>"]
    argument_checked_first [of _ "domain_error quantile_function
      ''Location parameter is %1%, but must be > 0!'' (- 1)"
      "\<lparr>m_location = - 1, m_shape = 1\<rparr>" "1 / 2" 1000]
  by (simp add: check_pareto_x_nonpos check_probability_outside check_pareto_x_None
      check_probability_None check_pareto_location_nonpos location_def shape_def)

end
